theory Spec2Isabelle
  imports Main "HOL-Library.Word"
begin

section \<open>The declaration file \<^verbatim>\<open>executor-wasm/pkg/executor_wasm.d.ts\<close>\<close>

text \<open>
  The file declares the JavaScript/WebAssembly boundary of the compiled executor: two
  type aliases, one interface and three functions, with no bodies. The types it
  declares are modelled as values of \<open>ts_type\<close>; an alias of the source is a constant
  of that type, and a reference to the alias is a use of the constant.

  Types of the host library (\<^verbatim>\<open>RequestInfo\<close>, \<^verbatim>\<open>URL\<close>, \<^verbatim>\<open>Response\<close>, \<^verbatim>\<open>BufferSource\<close>,
  \<^verbatim>\<open>WebAssembly.Module\<close>, \<^verbatim>\<open>WebAssembly.Memory\<close>, \<^verbatim>\<open>WebAssembly.Table\<close>) are declared
  outside this file, in the host library. They are referred to by name (\<open>TNamed\<close>); what
  is assignable to them is for the host library to say, and is a parameter of what follows.
\<close>

datatype 't param = Param (p_name: string) (p_optional: bool) (p_type: 't)

datatype 't member = Member (m_readonly: bool) (m_name: string) (m_type: 't)

datatype ts_type =
    TVoid
  | TNumber
  | TNamed string
  | TUnion "ts_type list"
  | TPromise ts_type
  | TFun "ts_type param list" ts_type
  | TInterface "ts_type member list"

text \<open>A parameter \<^verbatim>\<open>a: number\<close> of a function-typed member.\<close>

definition num :: "string \<Rightarrow> ts_type param" where
  "num x = Param x False TNumber"

text \<open>\<^verbatim>\<open>export function main(): void;\<close>\<close>

definition main :: ts_type where
  "main = TFun [] TVoid"

text \<open>\<^verbatim>\<open>export type InitInput = RequestInfo | URL | Response | BufferSource | WebAssembly.Module;\<close>\<close>

definition InitInput :: ts_type where
  "InitInput = TUnion [TNamed ''RequestInfo'', TNamed ''URL'', TNamed ''Response'',
     TNamed ''BufferSource'', TNamed ''WebAssembly.Module'']"

text \<open>\<^verbatim>\<open>export interface InitOutput { ... }\<close>, member by member, in the order of the file.\<close>

definition InitOutput :: ts_type where
  "InitOutput = TInterface
    [Member True ''memory'' (TNamed ''WebAssembly.Memory''),
     Member True ''main'' (TFun [] TVoid),
     Member True ''__wbindgen_malloc'' (TFun [num ''a'', num ''b''] TNumber),
     Member True ''__wbindgen_realloc''
       (TFun [num ''a'', num ''b'', num ''c'', num ''d''] TNumber),
     Member True ''__wbindgen_export_2'' (TNamed ''WebAssembly.Table''),
     Member True ''wasm_bindgen__convert__closures__invoke1_mut__h101dba3788d44583''
       (TFun [num ''a'', num ''b'', num ''c''] TVoid),
     Member True ''wasm_bindgen__convert__closures__invoke0_mut__h1c51a97846d81157''
       (TFun [num ''a'', num ''b''] TVoid),
     Member True ''wasm_bindgen__convert__closures__invoke2_mut__ha1996bae5900be0d''
       (TFun [num ''a'', num ''b'', num ''c'', num ''d''] TVoid),
     Member True ''wasm_bindgen__convert__closures__invoke0_mut__h004db82e21000bc1''
       (TFun [num ''a'', num ''b''] TVoid),
     Member True ''wasm_bindgen__convert__closures__invoke1_mut__h1b4c66a40f743170''
       (TFun [num ''a'', num ''b'', num ''c''] TVoid),
     Member True ''wasm_bindgen__convert__closures__invoke0_mut__hd470efaaecda53de''
       (TFun [num ''a'', num ''b''] TVoid),
     Member True ''_dyn_core__ops__function__FnMut__A____Output___R_as_wasm_bindgen__closure__WasmClosure___describe__invoke__he553b55b3d103bf8''
       (TFun [num ''a'', num ''b'', num ''c''] TVoid),
     Member True ''__wbindgen_free'' (TFun [num ''a'', num ''b'', num ''c''] TVoid),
     Member True ''__wbindgen_exn_store'' (TFun [num ''a''] TVoid)]"

text \<open>\<^verbatim>\<open>export type SyncInitInput = BufferSource | WebAssembly.Module;\<close>\<close>

definition SyncInitInput :: ts_type where
  "SyncInitInput = TUnion [TNamed ''BufferSource'', TNamed ''WebAssembly.Module'']"

text \<open>\<^verbatim>\<open>export function initSync(module: SyncInitInput): InitOutput;\<close>\<close>

definition initSync :: ts_type where
  "initSync = TFun [Param ''module'' False SyncInitInput] InitOutput"

text \<open>
  \<^verbatim>\<open>export default function __wbg_init (module_or_path?: InitInput | Promise<InitInput>): Promise<InitOutput>;\<close>
  (an Isabelle name cannot start with an underscore, so the constant is \<open>wbg_init\<close>).
\<close>

definition wbg_init :: ts_type where
  "wbg_init = TFun [Param ''module_or_path'' True (TUnion [InitInput, TPromise InitInput])]
     (TPromise InitOutput)"

text \<open>The export statements of the file, in its order.\<close>

datatype export_decl =
    ExportFunction string ts_type
  | ExportType string ts_type
  | ExportInterface string ts_type
  | ExportDefaultFunction string ts_type

definition executor_wasm :: "export_decl list" where
  "executor_wasm =
    [ExportFunction ''main'' main,
     ExportType ''InitInput'' InitInput,
     ExportInterface ''InitOutput'' InitOutput,
     ExportType ''SyncInitInput'' SyncInitInput,
     ExportFunction ''initSync'' initSync,
     ExportDefaultFunction ''__wbg_init'' wbg_init]"


section \<open>What the declarations mean to a caller\<close>

fun union_members :: "ts_type \<Rightarrow> ts_type list" where
  "union_members (TUnion ts) = concat (map union_members ts)"
| "union_members t = [t]"


fun members :: "ts_type \<Rightarrow> ts_type member list" where
  "members (TInterface ms) = ms"
| "members _ = []"

definition member_type :: "ts_type \<Rightarrow> string \<Rightarrow> ts_type option" where
  "member_type t x = map_option m_type (find (\<lambda>m. m_name m = x) (members t))"

definition member_names :: "ts_type \<Rightarrow> string list" where
  "member_names t = map m_name (members t)"

text \<open>
  What an importer finds under a name: a function, type or interface under its own name,
  the default export under \<^verbatim>\<open>default\<close> and not under the local name of the function.
\<close>

fun exported :: "export_decl list \<Rightarrow> string \<Rightarrow> ts_type option" where
  "exported [] x = None"
| "exported (ExportFunction y t # ds) x = (if x = y then Some t else exported ds x)"
| "exported (ExportType y t # ds) x = (if x = y then Some t else exported ds x)"
| "exported (ExportInterface y t # ds) x = (if x = y then Some t else exported ds x)"
| "exported (ExportDefaultFunction y t # ds) x =
     (if x = ''default'' then Some t else exported ds x)"

text \<open>
  TypeScript's assignability relation depends on the declarations of the host library,
  which are not in this file: it is a parameter, \<open>asg s t\<close> reading "a value of type \<open>s\<close>
  may be used where a \<open>t\<close> is expected".
\<close>

type_synonym checker = "ts_type \<Rightarrow> ts_type \<Rightarrow> bool"

text \<open>
  The arguments of a call against the declared parameters: each argument is assignable
  to its parameter, and only optional parameters may be left without an argument.
\<close>

fun args_ok :: "checker \<Rightarrow> ts_type param list \<Rightarrow> ts_type list \<Rightarrow> bool" where
  "args_ok asg [] [] = True"
| "args_ok asg [] (a # as) = False"
| "args_ok asg (p # ps) [] = (p_optional p \<and> args_ok asg ps [])"
| "args_ok asg (p # ps) (a # as) = (asg a (p_type p) \<and> args_ok asg ps as)"

text \<open>The type of a call, \<open>None\<close> when the call does not type-check.\<close>

fun call_type :: "checker \<Rightarrow> ts_type \<Rightarrow> ts_type list \<Rightarrow> ts_type option" where
  "call_type asg (TFun ps r) args = (if args_ok asg ps args then Some r else None)"
| "call_type asg _ args = None"

text \<open>
  Four rules of TypeScript's assignability, whatever the host library declares: a type is
  assignable to itself; a union is assignable when each of its members is; what is
  assignable to a type is assignable to every union with at least its members; and a
  promise is assignable to a promise of a type its content is assignable to.
\<close>

definition union_rules :: "checker \<Rightarrow> bool" where
  "union_rules asg \<longleftrightarrow>
     (\<forall>t. asg t t)
     \<and> (\<forall>a t. (\<forall>s\<in>set (union_members a). asg s t) \<longrightarrow> asg a t)
     \<and> (\<forall>a t u. asg a t \<and> set (union_members t) \<subseteq> set (union_members u) \<longrightarrow> asg a u)
     \<and> (\<forall>s t. asg s t \<longrightarrow> asg (TPromise s) (TPromise t))"

text \<open>
  A fifth rule: \<^verbatim>\<open>readonly\<close> is not consulted in assignability. An interface is
  assignable to an interface each of whose members it has, under the same name and with
  the same type, whether the one or the other declares the member \<^verbatim>\<open>readonly\<close>.
\<close>

definition member_sig :: "ts_type member \<Rightarrow> string \<times> ts_type" where
  "member_sig m = (m_name m, m_type m)"









section \<open>A checker with the host library's declarations\<close>

text \<open>
  The host library is not part of the repository. A checker to evaluate the declarations
  with takes from TypeScript's DOM library what it declares of the host types of this
  file: \<^verbatim>\<open>BufferSource\<close> is \<^verbatim>\<open>ArrayBufferView | ArrayBuffer\<close> (and a \<^verbatim>\<open>Uint8Array\<close> is an
  \<^verbatim>\<open>ArrayBufferView\<close>); \<^verbatim>\<open>RequestInfo\<close> is \<^verbatim>\<open>Request | string\<close>; \<^verbatim>\<open>WebAssembly.Module\<close> is
  an interface without members, so that every type but \<^verbatim>\<open>void\<close> is assignable to it.
  The checker accepts what these facts and the five rules give and nothing else. It is
  used for what it accepts; TypeScript accepts more (a function of fewer parameters where
  one of more is expected, an interface whose members have assignable rather than equal
  types).
\<close>

definition host_facts :: "(ts_type \<times> ts_type) list" where
  "host_facts =
    [(TNamed ''ArrayBufferView'', TNamed ''BufferSource''),
     (TNamed ''ArrayBuffer'', TNamed ''BufferSource''),
     (TNamed ''Uint8Array'', TNamed ''BufferSource''),
     (TNamed ''Uint8Array'', TNamed ''ArrayBufferView''),
     (TNamed ''Request'', TNamed ''RequestInfo''),
     (TNamed ''string'', TNamed ''RequestInfo'')]"

text \<open>
  A promise against a member of the expected type, an interface against one, and any
  type against one by the host's facts.
\<close>

fun promise_accepts :: "(ts_type \<Rightarrow> bool) \<Rightarrow> ts_type \<Rightarrow> bool" where
  "promise_accepts ok (TPromise t) = ok t"
| "promise_accepts ok _ = False"

fun interface_accepts :: "ts_type member list \<Rightarrow> ts_type \<Rightarrow> bool" where
  "interface_accepts ms (TInterface ns) = (set (map member_sig ns) \<subseteq> set (map member_sig ms))"
| "interface_accepts ms _ = False"

definition host_accepts :: "ts_type \<Rightarrow> ts_type \<Rightarrow> bool" where
  "host_accepts s m \<longleftrightarrow>
     s = m \<or> (s, m) \<in> set host_facts \<or> (m = TNamed ''WebAssembly.Module'' \<and> s \<noteq> TVoid)"

fun sample_checker :: checker where
  "sample_checker (TUnion ss) t = list_all (\<lambda>s. sample_checker s t) ss"
| "sample_checker (TPromise s) t =
     list_ex (\<lambda>m. host_accepts (TPromise s) m \<or> promise_accepts (sample_checker s) m)
       (union_members t)"
| "sample_checker (TInterface ms) t =
     list_ex (\<lambda>m. host_accepts (TInterface ms) m \<or> interface_accepts ms m) (union_members t)"
| "sample_checker s t = list_ex (host_accepts s) (union_members t)"


section \<open>The callable surface the specification lists\<close>

text \<open>
  Modelled from the spec: the callable surface its data model lists for a handle (a
  linear memory region, the entry point \<open>main\<close>, the allocator pair, the table of
  indirect function references, the deallocation function and the exception-storage
  slot), each named by the member of \<open>InitOutput\<close> that plays the part.
\<close>

definition listed_surface :: "string list" where
  "listed_surface =
    [''memory'', ''main'', ''__wbindgen_malloc'', ''__wbindgen_realloc'',
     ''__wbindgen_export_2'', ''__wbindgen_free'', ''__wbindgen_exn_store'']"

text \<open>The closure-invocation trampolines of \<open>InitOutput\<close>, in the order of the file.\<close>

definition trampolines :: "string list" where
  "trampolines =
    [''wasm_bindgen__convert__closures__invoke1_mut__h101dba3788d44583'',
     ''wasm_bindgen__convert__closures__invoke0_mut__h1c51a97846d81157'',
     ''wasm_bindgen__convert__closures__invoke2_mut__ha1996bae5900be0d'',
     ''wasm_bindgen__convert__closures__invoke0_mut__h004db82e21000bc1'',
     ''wasm_bindgen__convert__closures__invoke1_mut__h1b4c66a40f743170'',
     ''wasm_bindgen__convert__closures__invoke0_mut__hd470efaaecda53de'',
     ''_dyn_core__ops__function__FnMut__A____Output___R_as_wasm_bindgen__closure__WasmClosure___describe__invoke__he553b55b3d103bf8'']"

definition exposes_exactly :: "ts_type \<Rightarrow> string list \<Rightarrow> bool" where
  "exposes_exactly t xs = (set (member_names t) = set xs)"

text \<open>
  The number of parameters of a function that takes required numbers only and returns
  nothing; \<open>None\<close> for any other type and for a missing member.
\<close>

fun invoke_arity :: "ts_type option \<Rightarrow> nat option" where
  "invoke_arity (Some (TFun ps TVoid)) =
     (if list_all (\<lambda>p. p_type p = TNumber \<and> \<not> p_optional p) ps then Some (length ps) else None)"
| "invoke_arity _ = None"


section \<open>The loader at run time\<close>

text \<open>
  The declaration file gives the initializers' types and, in its comments, what they do:
  \<open>initSync\<close> "instantiates the given module, which can either be bytes or a precompiled
  WebAssembly.Module"; the default initializer, "if module_or_path is RequestInfo or URL,
  makes a request and for everything else, calls WebAssembly.instantiate directly". Their
  bodies are in the repository's \<^verbatim>\<open>executor_wasm.js\<close>, which is not among the source
  files. The definitions of this section are modelled from these comments and from the
  specification's contract of the module loader.
\<close>

text \<open>
  The values of the two input types \<open>SyncInitInput\<close> and \<open>InitInput\<close>, one constructor for
  each member of the union: a request descriptor and a URL are the address they name, a
  response and a buffer are the bytes they hold, a compiled module is a value of the
  host's type \<open>'m\<close>.
\<close>

type_synonym bytes = "8 word list"

datatype 'm sync_init_input = SBufferSource bytes | SModule 'm

datatype 'm init_input =
    IRequestInfo string
  | IURL string
  | IResponse bytes
  | IBufferSource bytes
  | IModule 'm

text \<open>
  What becomes of a fetch: the body of the response, a failure, or no answer at all,
  however long the caller waits.
\<close>

datatype fetch_result = Fetched bytes | FetchError | NoAnswer

text \<open>
  The host runtime, a parameter of the model: compiling bytes (\<open>None\<close> when they are not
  a valid compiled module), instantiating a compiled module (\<open>None\<close> when instantiation
  fails for host-resource reasons; \<open>'h\<close> is what the instance exports), fetching an
  address, and the location the default initializer falls back to.
\<close>

record ('m, 'h) host =
  compile :: "bytes \<Rightarrow> 'm option"
  instantiate :: "'m \<Rightarrow> 'h option"
  fetch :: "string \<Rightarrow> fetch_result"
  default_location :: string

text \<open>
  Modelled from the spec: the failures of the loader, which its missing bodies raise:
  "malformed or incompatible module bytes", instantiation that "fails for host-resource
  reasons", and "network/fetch failure" on the asynchronous path.
\<close>

datatype init_error = MalformedModule | InstantiationFailed | FetchFailed

text \<open>
  Modelled from the spec: instantiation of a compiled module, which is not in the source
  files; it "fails if ... instantiation fails for host-resource reasons".
\<close>

definition instantiate_module :: "('m, 'h) host \<Rightarrow> 'm \<Rightarrow> init_error + 'h" where
  "instantiate_module hst m =
     (case instantiate hst m of None \<Rightarrow> Inl InstantiationFailed | Some h \<Rightarrow> Inr h)"

text \<open>
  Modelled from the spec: instantiation of a byte buffer, which is not in the source
  files; it "fails if the input bytes are not a valid compiled module or instantiation
  fails for host-resource reasons".
\<close>

definition instantiate_bytes :: "('m, 'h) host \<Rightarrow> bytes \<Rightarrow> init_error + 'h" where
  "instantiate_bytes hst b =
     (case compile hst b of None \<Rightarrow> Inl MalformedModule | Some m \<Rightarrow> instantiate_module hst m)"

text \<open>
  Modelled from the spec: the body of \<open>initSync\<close>, which is not in the source files.
  "Input is either a raw binary buffer or an already-compiled module object; output is
  the Instantiated Module Handle"; a failure is the error the call raises.
\<close>

fun initSync_run :: "('m, 'h) host \<Rightarrow> 'm sync_init_input \<Rightarrow> init_error + 'h" where
  "initSync_run hst (SBufferSource b) = instantiate_bytes hst b"
| "initSync_run hst (SModule m) = instantiate_module hst m"

text \<open>
  Modelled from the spec: the "future/promise of the Instantiated Module Handle" the
  default initializer returns, by what becomes of it: it resolves to a handle, it is
  rejected with an error, or it stays pending for ever (the caller hangs).
\<close>

datatype 'h future = Resolved 'h | Rejected init_error | Pending

fun settle :: "init_error + 'h \<Rightarrow> 'h future" where
  "settle (Inl e) = Rejected e"
| "settle (Inr h) = Resolved h"

text \<open>
  Modelled from the spec: the fetch step of the default initializer, which is not in the
  source files. "Failure surfaces as a rejected future when fetch fails", and the
  initializer, "given an unreachable/failing source, rejects rather than hanging
  indefinitely": a fetch that fails and a fetch that gets no answer both end as the error
  of a failed fetch.
\<close>

fun fetched :: "fetch_result \<Rightarrow> init_error + bytes" where
  "fetched (Fetched b) = Inr b"
| "fetched FetchError = Inl FetchFailed"
| "fetched NoAnswer = Inl FetchFailed"

text \<open>
  Modelled from the spec: the fetch/compile/instantiate sequence of the default
  initializer, which is not in the source files. A request descriptor or a URL is
  fetched first; everything else is instantiated directly.
\<close>

fun load :: "('m, 'h) host \<Rightarrow> 'm init_input \<Rightarrow> init_error + 'h" where
  "load hst (IRequestInfo r) =
     (case fetched (fetch hst r) of Inl e \<Rightarrow> Inl e | Inr b \<Rightarrow> instantiate_bytes hst b)"
| "load hst (IURL u) =
     (case fetched (fetch hst u) of Inl e \<Rightarrow> Inl e | Inr b \<Rightarrow> instantiate_bytes hst b)"
| "load hst (IResponse b) = instantiate_bytes hst b"
| "load hst (IBufferSource b) = instantiate_bytes hst b"
| "load hst (IModule m) = instantiate_module hst m"

text \<open>
  The argument of the default initializer (\<^verbatim>\<open>module_or_path?: InitInput | Promise<InitInput>\<close>),
  when there is one: an instantiation source, or a pending value that resolves to one.
\<close>

datatype 'm init_arg = Direct "'m init_input" | Promised "'m init_input"

text \<open>
  Modelled from the spec: the body of the default initializer, which is not in the source
  files. "Input is an instantiation source ... or nothing (falls back to an
  implementation-defined default location); output is a future/promise of the
  Instantiated Module Handle; ... failure surfaces as a rejected future when fetch
  fails, bytes are malformed, or instantiation fails."
\<close>

fun wbg_init_run :: "('m, 'h) host \<Rightarrow> 'm init_arg option \<Rightarrow> 'h future" where
  "wbg_init_run hst None = settle (load hst (IURL (default_location hst)))"
| "wbg_init_run hst (Some (Direct i)) = settle (load hst i)"
| "wbg_init_run hst (Some (Promised i)) = settle (load hst i)"

text \<open>
  Modelled from the spec: the instantiation source a call of the default initializer
  works on, which the missing body decides ("an instantiation source ... or nothing
  (falls back to an implementation-defined default location)"): the default
  location when there is no argument, the argument itself, or what a pending argument
  resolves to.
\<close>

fun source :: "('m, 'h) host \<Rightarrow> 'm init_arg option \<Rightarrow> 'm init_input" where
  "source hst None = IURL (default_location hst)"
| "source hst (Some (Direct i)) = i"
| "source hst (Some (Promised i)) = i"

text \<open>
  Modelled from the spec: an "unreachable/failing source" of the default initializer,
  whose body is missing. A source is unreachable when it has to be fetched and the host
  does not deliver it: the fetch fails, or it never gets an answer.
\<close>

fun unreachable :: "('m, 'h) host \<Rightarrow> 'm init_input \<Rightarrow> bool" where
  "unreachable hst (IRequestInfo r) = (fetch hst r = FetchError \<or> fetch hst r = NoAnswer)"
| "unreachable hst (IURL u) = (fetch hst u = FetchError \<or> fetch hst u = NoAnswer)"
| "unreachable hst _ = False"

text \<open>
  Modelled from the spec: "the same underlying bytes" of an instantiation source, for
  the comparison of the two initializers, whose bodies are missing: the body of what a request descriptor or a
  URL fetches, the content of a response or a buffer, the bytes a compiled module was
  compiled from.
\<close>

fun underlying_bytes :: "('m, 'h) host \<Rightarrow> 'm init_input \<Rightarrow> bytes \<Rightarrow> bool" where
  "underlying_bytes hst (IRequestInfo r) b = (fetch hst r = Fetched b)"
| "underlying_bytes hst (IURL u) b = (fetch hst u = Fetched b)"
| "underlying_bytes hst (IResponse c) b = (c = b)"
| "underlying_bytes hst (IBufferSource c) b = (c = b)"
| "underlying_bytes hst (IModule m) b = (compile hst b = Some m)"

text \<open>
  A host to run the model on: it accepts the bytes that start with the magic number and
  version of a binary module, instantiates every module it compiled to the members of
  \<open>InitOutput\<close>, serves one address, never answers at another, and fails at every other.
\<close>

definition wasm_header :: bytes where
  "wasm_header = [0x00, 0x61, 0x73, 0x6D, 0x01, 0x00, 0x00, 0x00]"

definition sample_host :: "(bytes, string list) host" where
  "sample_host =
     \<lparr> compile = (\<lambda>b. if take 8 b = wasm_header then Some b else None),
       instantiate = (\<lambda>m. Some (member_names InitOutput)),
       fetch = (\<lambda>u. if u = ''executor_wasm_bg.wasm'' then Fetched wasm_header
                   else if u = ''silent.example/executor.wasm'' then NoAnswer
                   else FetchError),
       default_location = ''executor_wasm_bg.wasm'' \<rparr>"

text \<open>The same host when its resources are exhausted: no module can be instantiated.\<close>

definition exhausted_host :: "(bytes, string list) host" where
  "exhausted_host = sample_host \<lparr> instantiate := (\<lambda>m. None) \<rparr>"


section \<open>The entry point\<close>

text \<open>
  C8. The entry point \<open>main\<close> takes no arguments and returns no value, as the export of
  the module and as the member \<open>main\<close> of the handle's type: whatever the checker, a call
  with no argument has type \<^verbatim>\<open>void\<close>, and a call with any argument is refused.
\<close>

theorem main_takes_nothing_returns_nothing:
  "exported executor_wasm ''main'' = Some main
   \<and> main = TFun [] TVoid
   \<and> call_type asg main [] = Some TVoid
   \<and> call_type asg main (a # as) = None
   \<and> member_type InitOutput ''main'' = Some (TFun [] TVoid)"
  by (simp add: member_type_def InitOutput_def executor_wasm_def main_def)


section \<open>The sample checker obeys the rules\<close>

lemma host_accepts_refl: "host_accepts s s"
  by (simp add: host_accepts_def)

lemma sample_checker_widen:
  "sample_checker a t \<Longrightarrow> set (union_members t) \<subseteq> set (union_members u) \<Longrightarrow> sample_checker a u"
  by (induction a t rule: sample_checker.induct) (auto simp: list_all_iff list_ex_iff)

lemma union_members_not_union: "m \<in> set (union_members t) \<Longrightarrow> union_members m = [m]"
  by (induction t rule: union_members.induct) auto

lemma sample_checker_members:
  "(\<And>s. s \<in> set (union_members a) \<Longrightarrow> sample_checker s t) \<Longrightarrow> sample_checker a t"
proof (induction a t rule: sample_checker.induct)
  case (1 ss t)
  then show ?case by (auto simp: list_all_iff)
qed simp_all

lemma sample_checker_refl: "sample_checker t t"
proof (induction t)
  case (TUnion ts)
  have "sample_checker x (TUnion ts)" if "x \<in> set ts" for x
  proof (rule sample_checker_widen)
    show "sample_checker x x" using that by (rule TUnion)
    show "set (union_members x) \<subseteq> set (union_members (TUnion ts))"
      using that by auto
  qed
  then show ?case by (simp add: list_all_iff)
qed (simp_all add: host_accepts_refl)

lemma sample_checker_promise: "sample_checker s t \<Longrightarrow> sample_checker (TPromise s) (TPromise t)"
  by simp

lemma sample_checker_union_rules: "union_rules sample_checker"
  unfolding union_rules_def
  using sample_checker_refl sample_checker_members sample_checker_widen sample_checker_promise
  by blast



section \<open>Consequences of the rules\<close>

lemma union_rules_refl: "union_rules asg \<Longrightarrow> asg t t"
  unfolding union_rules_def by blast

lemma union_rules_members:
  "union_rules asg \<Longrightarrow> (\<And>s. s \<in> set (union_members a) \<Longrightarrow> asg s t) \<Longrightarrow> asg a t"
  unfolding union_rules_def by blast

lemma union_rules_widen:
  "union_rules asg \<Longrightarrow> asg a t \<Longrightarrow> set (union_members t) \<subseteq> set (union_members u) \<Longrightarrow> asg a u"
  unfolding union_rules_def by blast

lemma union_rules_promise: "union_rules asg \<Longrightarrow> asg s t \<Longrightarrow> asg (TPromise s) (TPromise t)"
  unfolding union_rules_def by blast

lemma union_rules_member:
  assumes "union_rules asg" and "asg a m" and "m \<in> set (union_members t)"
  shows "asg a t"
proof (rule union_rules_widen[OF assms(1,2)])
  from assms(3) have "union_members m = [m]" by (rule union_members_not_union)
  with assms(3) show "set (union_members m) \<subseteq> set (union_members t)" by simp
qed

lemma members_SyncInitInput:
  "union_members SyncInitInput = [TNamed ''BufferSource'', TNamed ''WebAssembly.Module'']"
  by (simp add: SyncInitInput_def)

lemma members_InitInput:
  "union_members InitInput =
     [TNamed ''RequestInfo'', TNamed ''URL'', TNamed ''Response'', TNamed ''BufferSource'',
      TNamed ''WebAssembly.Module'']"
  by (simp add: InitInput_def)

lemma members_wbg_param:
  "union_members (TUnion [InitInput, TPromise InitInput]) =
     union_members InitInput @ [TPromise InitInput]"
  by simp

lemma SyncInitInput_subset: "set (union_members SyncInitInput) \<subseteq> set (union_members InitInput)"
  by (simp add: members_SyncInitInput members_InitInput)

lemma initSync_call:
  "call_type asg initSync [a] = (if asg a SyncInitInput then Some InitOutput else None)"
  by (simp add: initSync_def)

lemma wbg_init_call:
  "call_type asg wbg_init [a] =
     (if asg a (TUnion [InitInput, TPromise InitInput])
      then Some (TPromise InitOutput) else None)"
  by (simp add: wbg_init_def)


lemma source_accepted:
  assumes "union_rules asg" and "m \<in> set (union_members InitInput)" and "asg s m"
  shows "asg s (TUnion [InitInput, TPromise InitInput])"
    and "asg (TPromise s) (TUnion [InitInput, TPromise InitInput])"
proof -
  from assms(2) have "m \<in> set (union_members (TUnion [InitInput, TPromise InitInput]))"
    unfolding members_wbg_param by simp
  then show "asg s (TUnion [InitInput, TPromise InitInput])"
    by (rule union_rules_member[OF assms(1) assms(3)])
  have "asg s InitInput"
    by (rule union_rules_member[OF assms(1) assms(3) assms(2)])
  then have promise: "asg (TPromise s) (TPromise InitInput)"
    by (rule union_rules_promise[OF assms(1)])
  have "TPromise InitInput \<in> set (union_members (TUnion [InitInput, TPromise InitInput]))"
    unfolding members_wbg_param by simp
  then show "asg (TPromise s) (TUnion [InitInput, TPromise InitInput])"
    by (rule union_rules_member[OF assms(1) promise])
qed

lemma sync_assignable_init:
  "union_rules asg \<Longrightarrow> asg a SyncInitInput \<Longrightarrow> asg a InitInput"
  using SyncInitInput_subset by (rule union_rules_widen[rotated 2])

lemma init_assignable_wbg_param:
  assumes "union_rules asg" and "asg a InitInput"
  shows "asg a (TUnion [InitInput, TPromise InitInput])"
  using assms
proof (rule union_rules_widen)
  show "set (union_members InitInput) \<subseteq> set (union_members (TUnion [InitInput, TPromise InitInput]))"
    unfolding members_wbg_param by auto
qed


section \<open>The synchronous initializer's signature\<close>





section \<open>The default initializer's signature\<close>

text \<open>
  C2. The module's default export is \<open>wbg_init\<close>, with one optional parameter of type
  \<^verbatim>\<open>InitInput | Promise<InitInput>\<close>, where \<open>InitInput\<close> is made of \<^verbatim>\<open>RequestInfo\<close>, \<^verbatim>\<open>URL\<close>,
  \<^verbatim>\<open>Response\<close>, \<^verbatim>\<open>BufferSource\<close> and \<^verbatim>\<open>WebAssembly.Module\<close>. It may be called with no
  argument. Whatever the checker, a call with one argument is accepted exactly when the
  argument is assignable to the parameter's type; under the rules of assignability, every
  argument assignable to one of the five sources is accepted, and so is a promise of it.
  In each case the type of the call is \<^verbatim>\<open>Promise<InitOutput>\<close>.
\<close>

theorem wbg_init_signature:
  "exported executor_wasm ''default'' = Some wbg_init
   \<and> wbg_init = TFun [Param ''module_or_path'' True (TUnion [InitInput, TPromise InitInput])]
       (TPromise InitOutput)
   \<and> union_members InitInput =
       [TNamed ''RequestInfo'', TNamed ''URL'', TNamed ''Response'', TNamed ''BufferSource'',
        TNamed ''WebAssembly.Module'']
   \<and> call_type asg wbg_init [] = Some (TPromise InitOutput)
   \<and> call_type asg wbg_init [a] =
       (if asg a (TUnion [InitInput, TPromise InitInput])
        then Some (TPromise InitOutput) else None)
   \<and> (union_rules asg \<and> m \<in> set (union_members InitInput) \<and> asg s m
        \<longrightarrow> call_type asg wbg_init [s] = Some (TPromise InitOutput)
          \<and> call_type asg wbg_init [TPromise s] = Some (TPromise InitOutput))
   \<and> call_type asg wbg_init (a # b # cs) = None"
proof -
  have "exported executor_wasm ''default'' = Some wbg_init"
    by (simp add: executor_wasm_def)
  moreover have "call_type asg wbg_init [] = Some (TPromise InitOutput)"
    "call_type asg wbg_init (a # b # cs) = None"
    by (simp_all add: wbg_init_def)
  moreover have "union_rules asg \<and> m \<in> set (union_members InitInput) \<and> asg s m
      \<longrightarrow> call_type asg wbg_init [s] = Some (TPromise InitOutput)
        \<and> call_type asg wbg_init [TPromise s] = Some (TPromise InitOutput)"
  proof
    assume a: "union_rules asg \<and> m \<in> set (union_members InitInput) \<and> asg s m"
    then have "asg s (TUnion [InitInput, TPromise InitInput])"
      "asg (TPromise s) (TUnion [InitInput, TPromise InitInput])"
      using source_accepted[of asg m s] by simp_all
    then show "call_type asg wbg_init [s] = Some (TPromise InitOutput)
        \<and> call_type asg wbg_init [TPromise s] = Some (TPromise InitOutput)"
      by (simp only: wbg_init_call if_True simp_thms)
  qed
  moreover note wbg_init_def members_InitInput wbg_init_call[of asg a]
  ultimately show ?thesis by (simp only: simp_thms)
qed

text \<open>
  A string is a \<^verbatim>\<open>RequestInfo\<close> for the sample checker: a call with a string and a call
  with a promise of a string are accepted.
\<close>

theorem wbg_init_signature_witness:
  "call_type sample_checker wbg_init [TNamed ''string''] = Some (TPromise InitOutput)
   \<and> call_type sample_checker wbg_init [TPromise (TNamed ''string'')] = Some (TPromise InitOutput)"
proof -
  have rules: "union_rules sample_checker
      \<and> TNamed ''RequestInfo'' \<in> set (union_members InitInput)
      \<and> sample_checker (TNamed ''string'') (TNamed ''RequestInfo'')"
    using sample_checker_union_rules
    by (simp add: members_InitInput host_accepts_def host_facts_def)
  show ?thesis
    by (rule wbg_init_signature[of sample_checker _ "TNamed ''RequestInfo''" "TNamed ''string''",
        THEN conjunct2, THEN conjunct2, THEN conjunct2, THEN conjunct2, THEN conjunct2,
        THEN conjunct1, rule_format, OF rules])
qed


section \<open>The two input types\<close>

text \<open>
  C9. Every member of \<open>SyncInitInput\<close> is a member of \<open>InitInput\<close>, which has three more:
  \<^verbatim>\<open>RequestInfo\<close>, \<^verbatim>\<open>URL\<close> and \<^verbatim>\<open>Response\<close>. Under the rules of assignability,
  \<open>SyncInitInput\<close> is assignable to \<open>InitInput\<close>, whatever is assignable to \<open>SyncInitInput\<close>
  is assignable to \<open>InitInput\<close>, and every call the synchronous initializer accepts, the
  default initializer accepts with the same arguments.
\<close>

theorem SyncInitInput_subtype_InitInput:
  "set (union_members SyncInitInput) \<subseteq> set (union_members InitInput)
   \<and> filter (\<lambda>m. m \<notin> set (union_members SyncInitInput)) (union_members InitInput)
       = [TNamed ''RequestInfo'', TNamed ''URL'', TNamed ''Response'']
   \<and> (union_rules asg \<longrightarrow> asg SyncInitInput InitInput)
   \<and> (union_rules asg \<and> asg a SyncInitInput \<longrightarrow> asg a InitInput)
   \<and> (union_rules asg \<and> call_type asg initSync args = Some InitOutput
        \<longrightarrow> call_type asg wbg_init args = Some (TPromise InitOutput))"
proof -
  have extra: "filter (\<lambda>m. m \<notin> set (union_members SyncInitInput)) (union_members InitInput)
       = [TNamed ''RequestInfo'', TNamed ''URL'', TNamed ''Response'']"
    by (simp add: members_SyncInitInput members_InitInput)
  have sub: "asg SyncInitInput InitInput" if "union_rules asg"
    using that union_rules_refl[OF that] by (rule sync_assignable_init)
  have incl: "asg a InitInput" if "union_rules asg \<and> asg a SyncInitInput"
    using that sync_assignable_init[of asg a] by simp
  have calls: "call_type asg wbg_init args = Some (TPromise InitOutput)"
    if sync: "union_rules asg \<and> call_type asg initSync args = Some InitOutput"
  proof (cases args)
    case Nil
    with sync show ?thesis by (simp add: initSync_def)
  next
    case (Cons x xs)
    show ?thesis
    proof (cases xs)
      case Nil
      with Cons sync have "call_type asg initSync [x] = Some InitOutput"
        by simp
      then have "asg x SyncInitInput"
        unfolding initSync_call by (simp split: if_splits)
      with sync have "asg x (TUnion [InitInput, TPromise InitInput])"
        using init_assignable_wbg_param[of asg x] sync_assignable_init[of asg x] by simp
      then have "call_type asg wbg_init [x] = Some (TPromise InitOutput)"
        by (simp only: wbg_init_call if_True)
      with Cons Nil show ?thesis by simp
    next
      case (Cons y ys)
      with \<open>args = x # xs\<close> sync show ?thesis by (simp add: initSync_def)
    qed
  qed
  from SyncInitInput_subset extra sub incl calls show ?thesis
    by (intro conjI impI)
qed

text \<open>
  A \<^verbatim>\<open>Uint8Array\<close> is accepted by both initializers.
\<close>

theorem SyncInitInput_subtype_InitInput_witness:
  "sample_checker (TNamed ''Uint8Array'') SyncInitInput
   \<and> sample_checker (TNamed ''Uint8Array'') InitInput
   \<and> call_type sample_checker initSync [TNamed ''Uint8Array''] = Some InitOutput
   \<and> call_type sample_checker wbg_init [TNamed ''Uint8Array''] = Some (TPromise InitOutput)"
proof -
  have accepted: "sample_checker (TNamed ''Uint8Array'') SyncInitInput"
    by (simp add: SyncInitInput_def host_accepts_def host_facts_def)
  then have sync: "call_type sample_checker initSync [TNamed ''Uint8Array''] = Some InitOutput"
    by (simp only: initSync_call if_True)
  note at_buffer = SyncInitInput_subtype_InitInput[of sample_checker "TNamed ''Uint8Array''"
      "[TNamed ''Uint8Array'']"]
  from at_buffer have "sample_checker (TNamed ''Uint8Array'') InitInput"
    using accepted sample_checker_union_rules by (elim conjE) (erule mp, rule conjI)
  moreover from at_buffer
  have "call_type sample_checker wbg_init [TNamed ''Uint8Array''] = Some (TPromise InitOutput)"
    using sync sample_checker_union_rules by (elim conjE) (erule mp, rule conjI)
  ultimately show ?thesis using accepted sync by (intro conjI)
qed


section \<open>The handle's members are read-only\<close>










section \<open>The members of the handle against the listed surface\<close>

lemma InitOutput_member_names:
  "member_names InitOutput = take 5 listed_surface @ trampolines @ drop 5 listed_surface"
  by (simp add: member_names_def InitOutput_def listed_surface_def trampolines_def)

lemma listed_member_types:
  "member_type InitOutput ''memory'' = Some (TNamed ''WebAssembly.Memory'')
   \<and> member_type InitOutput ''main'' = Some (TFun [] TVoid)
   \<and> member_type InitOutput ''__wbindgen_malloc'' = Some (TFun [num ''a'', num ''b''] TNumber)
   \<and> member_type InitOutput ''__wbindgen_realloc''
       = Some (TFun [num ''a'', num ''b'', num ''c'', num ''d''] TNumber)
   \<and> member_type InitOutput ''__wbindgen_export_2'' = Some (TNamed ''WebAssembly.Table'')
   \<and> member_type InitOutput ''__wbindgen_free''
       = Some (TFun [num ''a'', num ''b'', num ''c''] TVoid)
   \<and> member_type InitOutput ''__wbindgen_exn_store'' = Some (TFun [num ''a''] TVoid)"
  by (simp add: member_type_def InitOutput_def)

lemma trampoline_types:
  "map (member_type InitOutput) trampolines =
     [Some (TFun [num ''a'', num ''b'', num ''c''] TVoid),
      Some (TFun [num ''a'', num ''b''] TVoid),
      Some (TFun [num ''a'', num ''b'', num ''c'', num ''d''] TVoid),
      Some (TFun [num ''a'', num ''b''] TVoid),
      Some (TFun [num ''a'', num ''b'', num ''c''] TVoid),
      Some (TFun [num ''a'', num ''b''] TVoid),
      Some (TFun [num ''a'', num ''b'', num ''c''] TVoid)]"
  by (simp add: member_type_def InitOutput_def trampolines_def)

lemma trampoline_arities:
  "map (\<lambda>x. invoke_arity (member_type InitOutput x)) trampolines =
     [Some 3, Some 2, Some 4, Some 2, Some 3, Some 2, Some 3]"
proof -
  have "map (\<lambda>x. invoke_arity (member_type InitOutput x)) trampolines
      = map invoke_arity (map (member_type InitOutput) trampolines)"
    by simp
  also have "\<dots> = [Some 3, Some 2, Some 4, Some 2, Some 3, Some 2, Some 3]"
    unfolding trampoline_types by (simp add: num_def)
  finally show ?thesis .
qed

lemma exposes_listed_and_trampolines: "exposes_exactly InitOutput (listed_surface @ trampolines)"
proof -
  have "set (take 5 listed_surface) \<union> set (drop 5 listed_surface) = set listed_surface"
    by (simp only: set_append[symmetric] append_take_drop_id)
  then show ?thesis
    unfolding exposes_exactly_def InitOutput_member_names set_append by blast
qed

text \<open>
  C3, as stated: every handle exposes exactly the listed surface (memory, \<open>main\<close>, the
  allocator pair, the function table, the deallocation function, the exception-storage
  slot). It does not: \<open>InitOutput\<close> has the member
  \<^verbatim>\<open>wasm_bindgen__convert__closures__invoke1_mut__h101dba3788d44583\<close>, a closure-invocation
  trampoline, which is none of the listed ones.
\<close>

theorem InitOutput_not_exactly_listed_surface:
  "\<not> exposes_exactly InitOutput listed_surface"
proof -
  let ?x = "''wasm_bindgen__convert__closures__invoke1_mut__h101dba3788d44583''"
  have "?x \<in> set (member_names InitOutput)"
    by (simp add: member_names_def InitOutput_def)
  moreover have "?x \<notin> set listed_surface"
    by (simp add: listed_surface_def)
  ultimately show ?thesis unfolding exposes_exactly_def by (metis (no_types))
qed

text \<open>
  C3, amended: every handle exposes the seven listed members, each of the listed shape
  (a memory; \<open>main\<close> with no parameter and no result; an allocator of two numbers and a
  reallocator of four, each returning a number; a table; a deallocation function of three
  numbers and an exception-storage function of one, returning nothing), and besides them
  exactly seven closure-invocation trampolines, each a function of two, three or four
  required numbers that returns nothing (three of two, three of three and one of four).
  The fourteen names are distinct, and the trampolines stand between the table and the
  deallocation function.
\<close>

theorem InitOutput_surface:
  "exposes_exactly InitOutput (listed_surface @ trampolines)
   \<and> member_names InitOutput = take 5 listed_surface @ trampolines @ drop 5 listed_surface
   \<and> distinct (member_names InitOutput)
   \<and> length listed_surface = 7 \<and> length trampolines = 7
   \<and> member_type InitOutput ''memory'' = Some (TNamed ''WebAssembly.Memory'')
   \<and> member_type InitOutput ''main'' = Some (TFun [] TVoid)
   \<and> member_type InitOutput ''__wbindgen_malloc'' = Some (TFun [num ''a'', num ''b''] TNumber)
   \<and> member_type InitOutput ''__wbindgen_realloc''
       = Some (TFun [num ''a'', num ''b'', num ''c'', num ''d''] TNumber)
   \<and> member_type InitOutput ''__wbindgen_export_2'' = Some (TNamed ''WebAssembly.Table'')
   \<and> member_type InitOutput ''__wbindgen_free''
       = Some (TFun [num ''a'', num ''b'', num ''c''] TVoid)
   \<and> member_type InitOutput ''__wbindgen_exn_store'' = Some (TFun [num ''a''] TVoid)
   \<and> map (member_type InitOutput) trampolines =
       [Some (TFun [num ''a'', num ''b'', num ''c''] TVoid),
        Some (TFun [num ''a'', num ''b''] TVoid),
        Some (TFun [num ''a'', num ''b'', num ''c'', num ''d''] TVoid),
        Some (TFun [num ''a'', num ''b''] TVoid),
        Some (TFun [num ''a'', num ''b'', num ''c''] TVoid),
        Some (TFun [num ''a'', num ''b''] TVoid),
        Some (TFun [num ''a'', num ''b'', num ''c''] TVoid)]
   \<and> map (\<lambda>x. invoke_arity (member_type InitOutput x)) trampolines =
       [Some 3, Some 2, Some 4, Some 2, Some 3, Some 2, Some 3]"
proof -
  have "distinct (member_names InitOutput)"
    by (simp add: member_names_def InitOutput_def)
  moreover have "length listed_surface = 7" "length trampolines = 7"
    by (simp_all add: listed_surface_def trampolines_def)
  moreover note exposes_listed_and_trampolines InitOutput_member_names listed_member_types
    trampoline_types trampoline_arities
  ultimately show ?thesis by (simp only: simp_thms)
qed


section \<open>The loader at run time: failure and agreement of the two paths\<close>

lemma wbg_init_run_source: "wbg_init_run hst arg = settle (load hst (source hst arg))"
  by (induction hst arg rule: wbg_init_run.induct) simp_all

lemma load_underlying_bytes:
  "underlying_bytes hst i b \<Longrightarrow> load hst i = initSync_run hst (SBufferSource b)"
  by (cases i) (simp_all add: instantiate_bytes_def)

lemma load_unreachable: "unreachable hst i \<Longrightarrow> load hst i = Inl FetchFailed"
  by (cases i) auto

lemma instantiate_module_Inr: "instantiate_module hst m = Inr h \<longleftrightarrow> instantiate hst m = Some h"
  by (simp add: instantiate_module_def split: option.splits)

lemma instantiate_bytes_Inr:
  "instantiate_bytes hst b = Inr h \<longleftrightarrow> (\<exists>m. compile hst b = Some m \<and> instantiate hst m = Some h)"
  by (simp add: instantiate_bytes_def instantiate_module_Inr split: option.splits)

lemma load_Inr: "load hst i = Inr h \<Longrightarrow> \<exists>m. instantiate hst m = Some h"
  by (cases i) (auto simp: instantiate_bytes_Inr instantiate_module_Inr split: sum.splits)

lemma settle_Resolved: "settle r = Resolved h \<longleftrightarrow> r = Inr h"
  by (cases r) simp_all

lemma settle_not_Pending: "settle r \<noteq> Pending"
  by (cases r) simp_all

text \<open>
  C4. When the host does not accept the bytes as a valid compiled module, \<open>initSync\<close> on
  them fails with the error of malformed bytes, and returns no handle of any kind.
\<close>

theorem initSync_run_malformed_fails:
  "compile hst b = None \<Longrightarrow>
     initSync_run hst (SBufferSource b) = Inl MalformedModule
     \<and> (\<forall>h. initSync_run hst (SBufferSource b) \<noteq> Inr h)"
  by (simp add: instantiate_bytes_def)

text \<open>
  Three bytes that do not start a binary module.
\<close>

theorem initSync_run_malformed_fails_witness:
  "compile sample_host [1, 2, 3] = None
   \<and> initSync_run sample_host (SBufferSource [1, 2, 3]) = Inl MalformedModule"
proof -
  have bad: "compile sample_host [1, 2, 3] = None"
    by (simp add: sample_host_def wasm_header_def)
  from bad initSync_run_malformed_fails[OF bad, THEN conjunct1] show ?thesis by (rule conjI)
qed

text \<open>
  C6. When the source the default initializer works on has the bytes \<open>b\<close> under it, its
  future settles as \<open>initSync\<close> on \<open>b\<close> returns: where the synchronous path returns a handle,
  the future resolves to the same handle, so to the same exports. The declared types
  agree as well: \<open>initSync\<close> returns \<open>InitOutput\<close> and the default initializer a promise of
  this same \<open>InitOutput\<close>.
\<close>

theorem wbg_init_run_agrees_with_initSync_run:
  "underlying_bytes hst (source hst arg) b \<Longrightarrow>
     wbg_init_run hst arg = settle (initSync_run hst (SBufferSource b))
     \<and> (initSync_run hst (SBufferSource b) = Inr h \<longrightarrow> wbg_init_run hst arg = Resolved h)
     \<and> (\<exists>ps. initSync = TFun ps InitOutput)
     \<and> (\<exists>ps. wbg_init = TFun ps (TPromise InitOutput))"
proof -
  assume "underlying_bytes hst (source hst arg) b"
  then have "load hst (source hst arg) = initSync_run hst (SBufferSource b)"
    by (rule load_underlying_bytes)
  then have run: "wbg_init_run hst arg = settle (initSync_run hst (SBufferSource b))"
    by (simp only: wbg_init_run_source)
  then have "initSync_run hst (SBufferSource b) = Inr h \<longrightarrow> wbg_init_run hst arg = Resolved h"
    by simp
  moreover have "\<exists>ps. initSync = TFun ps InitOutput"
    by (simp add: initSync_def)
  moreover have "\<exists>ps. wbg_init = TFun ps (TPromise InitOutput)"
    by (simp add: wbg_init_def)
  ultimately show ?thesis using run by (intro conjI)
qed

text \<open>
  With no argument, the sample host fetches a module from its default location; both
  paths give the handle with the members of \<open>InitOutput\<close>.
\<close>

theorem wbg_init_run_agrees_with_initSync_run_witness:
  "underlying_bytes sample_host (source sample_host None) wasm_header
   \<and> initSync_run sample_host (SBufferSource wasm_header) = Inr (member_names InitOutput)
   \<and> wbg_init_run sample_host None = Resolved (member_names InitOutput)"
proof -
  have src: "underlying_bytes sample_host (source sample_host None) wasm_header"
    by (simp add: sample_host_def)
  have sync: "initSync_run sample_host (SBufferSource wasm_header) = Inr (member_names InitOutput)"
    by (simp add: sample_host_def instantiate_bytes_def instantiate_module_def wasm_header_def)
  from wbg_init_run_agrees_with_initSync_run[OF src, THEN conjunct2, THEN conjunct1,
      rule_format, OF sync] src sync
  show ?thesis by (intro conjI)
qed

text \<open>
  C7. The future of the default initializer never stays pending. It is rejected when
  its source is unreachable (the fetch fails, or gets no answer), when the bytes under the
  source are not a valid compiled module, and when instantiation of the module fails (a
  module compiled from the bytes under the source, or a compiled module given as the
  source). A future that resolves always carries a handle that an instantiation
  produced: a failure shows as a rejection and as nothing else.
\<close>

theorem wbg_init_run_rejects_on_failure:
  "wbg_init_run hst arg \<noteq> Pending
   \<and> (unreachable hst (source hst arg) \<longrightarrow> wbg_init_run hst arg = Rejected FetchFailed)
   \<and> (underlying_bytes hst (source hst arg) b \<and> compile hst b = None
        \<longrightarrow> wbg_init_run hst arg = Rejected MalformedModule)
   \<and> (underlying_bytes hst (source hst arg) b \<and> compile hst b = Some m \<and> instantiate hst m = None
        \<longrightarrow> wbg_init_run hst arg = Rejected InstantiationFailed)
   \<and> (source hst arg = IModule m \<and> instantiate hst m = None
        \<longrightarrow> wbg_init_run hst arg = Rejected InstantiationFailed)
   \<and> (wbg_init_run hst arg = Resolved h \<longrightarrow> (\<exists>m. instantiate hst m = Some h))"
proof (intro conjI impI)
  show "wbg_init_run hst arg \<noteq> Pending"
    by (simp only: wbg_init_run_source settle_not_Pending not_False_eq_True)
next
  assume "unreachable hst (source hst arg)"
  then show "wbg_init_run hst arg = Rejected FetchFailed"
    by (simp add: wbg_init_run_source load_unreachable)
next
  assume a: "underlying_bytes hst (source hst arg) b \<and> compile hst b = None"
  then have "load hst (source hst arg) = instantiate_bytes hst b"
    using load_underlying_bytes[of hst "source hst arg" b] by simp
  with a show "wbg_init_run hst arg = Rejected MalformedModule"
    by (simp add: wbg_init_run_source instantiate_bytes_def)
next
  assume a: "underlying_bytes hst (source hst arg) b \<and> compile hst b = Some m
      \<and> instantiate hst m = None"
  then have "load hst (source hst arg) = instantiate_bytes hst b"
    using load_underlying_bytes[of hst "source hst arg" b] by simp
  with a show "wbg_init_run hst arg = Rejected InstantiationFailed"
    by (simp add: wbg_init_run_source instantiate_bytes_def instantiate_module_def)
next
  assume "source hst arg = IModule m \<and> instantiate hst m = None"
  then show "wbg_init_run hst arg = Rejected InstantiationFailed"
    by (simp add: wbg_init_run_source instantiate_module_def)
next
  assume "wbg_init_run hst arg = Resolved h"
  then show "\<exists>m. instantiate hst m = Some h"
    by (simp add: wbg_init_run_source settle_Resolved load_Inr)
qed

text \<open>
  An address that never answers, an address the sample host does not serve, a pending
  response of three bytes, and the default location on the exhausted host: a rejection of
  each kind.
\<close>

theorem wbg_init_run_rejects_on_failure_witness:
  "wbg_init_run sample_host (Some (Direct (IURL ''silent.example/executor.wasm'')))
     = Rejected FetchFailed
   \<and> wbg_init_run sample_host (Some (Direct (IRequestInfo ''missing.wasm''))) = Rejected FetchFailed
   \<and> wbg_init_run sample_host (Some (Promised (IResponse [1, 2, 3]))) = Rejected MalformedModule
   \<and> wbg_init_run exhausted_host None = Rejected InstantiationFailed"
proof -
  have 0: "unreachable sample_host
      (source sample_host (Some (Direct (IURL ''silent.example/executor.wasm''))))"
    by (simp add: sample_host_def)
  have 1: "unreachable sample_host (source sample_host (Some (Direct (IRequestInfo ''missing.wasm''))))"
    by (simp add: sample_host_def)
  have 2: "underlying_bytes sample_host
        (source sample_host (Some (Promised (IResponse [1, 2, 3])))) [1, 2, 3]
      \<and> compile sample_host [1, 2, 3] = None"
    by (simp add: sample_host_def wasm_header_def)
  have 3: "underlying_bytes exhausted_host (source exhausted_host None) wasm_header
      \<and> compile exhausted_host wasm_header = Some wasm_header
      \<and> instantiate exhausted_host wasm_header = None"
    by (simp add: exhausted_host_def sample_host_def wasm_header_def)
  from wbg_init_run_rejects_on_failure[of sample_host
      "Some (Direct (IURL ''silent.example/executor.wasm''))",
      THEN conjunct2, THEN conjunct1, rule_format, OF 0]
    wbg_init_run_rejects_on_failure[of sample_host "Some (Direct (IRequestInfo ''missing.wasm''))",
      THEN conjunct2, THEN conjunct1, rule_format, OF 1]
    wbg_init_run_rejects_on_failure[of sample_host "Some (Promised (IResponse [1, 2, 3]))"
      "[1, 2, 3]", THEN conjunct2, THEN conjunct2, THEN conjunct1, rule_format, OF 2]
    wbg_init_run_rejects_on_failure[of exhausted_host None wasm_header wasm_header,
      THEN conjunct2, THEN conjunct2, THEN conjunct2, THEN conjunct1, rule_format, OF 3]
  show ?thesis by (intro conjI)
qed

end
